theory Spec2Isabelle
  imports Main
begin

section \<open>License server: a shallow embedding of license_server.py\<close>

text \<open>
  The module is a FastAPI application over one SQLite table and the pyseto library.
  The request handlers are embedded as functions that take the table and return it
  updated; every exception of the source is a value of \<open>error\<close>. The functions of
  pyseto, datetime and sqlite3 whose code is not part of the module are parameters,
  collected in \<open>pylib\<close>; the arithmetic of datetime (comparison, adding days, the
  range of representable values) is written out on microsecond counts, and so is the
  binding of the keyword arguments of the call of pyseto.decode against the parameters
  that function declares.
\<close>

subsection \<open>Exceptions\<close>

datatype sql_constraint =
    Unique_key           \<comment> \<open>key TEXT UNIQUE NOT NULL\<close>
  | NotNull_username     \<comment> \<open>username TEXT NOT NULL\<close>
  | NotNull_plan         \<comment> \<open>plan TEXT NOT NULL\<close>

datatype error =
    ValueError                      \<comment> \<open>verify_paseto_token; datetime.fromisoformat on malformed text\<close>
  | TypeError                       \<comment> \<open>fromisoformat(None); offset-naive against offset-aware\<close>
  | OverflowError                   \<comment> \<open>timedelta or datetime out of range\<close>
  | IntegrityError sql_constraint   \<comment> \<open>sqlite3.IntegrityError\<close>
  | OperationalError                \<comment> \<open>sqlite3.connect cannot open the database\<close>
  | HTTPException nat error         \<comment> \<open>HTTPException(status_code, detail = str(e))\<close>

subsection \<open>datetime and timedelta\<close>

text \<open>
  A datetime is its count of microseconds since datetime.min (0001-01-01T00:00:00),
  read off its own calendar fields, and its UTC offset: \<open>None\<close> for an offset-naive
  value, as datetime.utcnow() returns.
\<close>

datatype datetime = DateTime int "int option"

definition us_per_day :: int where
  "us_per_day = 86400000000"

definition datetime_max :: int where
  \<comment> \<open>datetime.max = 9999-12-31T23:59:59.999999\<close>
  "datetime_max = 3652059 * 86400000000 - 1"

definition timedelta_days :: "int \<Rightarrow> error + int" where
  \<comment> \<open>timedelta(days=d), in microseconds; the magnitude of d is at most 999999999\<close>
  "timedelta_days d =
     (if - 999999999 \<le> d \<and> d \<le> 999999999 then Inr (d * us_per_day) else Inl OverflowError)"

fun datetime_add :: "datetime \<Rightarrow> int \<Rightarrow> error + datetime" where
  \<comment> \<open>dt + delta: the offset is kept, the result must be a representable date\<close>
  "datetime_add (DateTime t tz) delta =
     (if 0 \<le> t + delta \<and> t + delta \<le> datetime_max then Inr (DateTime (t + delta) tz)
      else Inl OverflowError)"

fun utcnow_gt :: "int \<Rightarrow> datetime \<Rightarrow> error + bool" where
  \<comment> \<open>datetime.utcnow() > dt, the clock reading being offset-naive\<close>
  "utcnow_gt now (DateTime t None) = Inr (now > t)"
| "utcnow_gt now (DateTime t (Some off)) = Inl TypeError"

fun days_until :: "datetime \<Rightarrow> int \<Rightarrow> error + int" where
  \<comment> \<open>(dt - datetime.utcnow()).days: timedelta normalises with the floor of the days\<close>
  "days_until (DateTime t None) now = Inr ((t - now) div us_per_day)"
| "days_until (DateTime t (Some off)) now = Inl TypeError"

subsection \<open>The library functions the module calls\<close>

type_synonym payload = "(string \<times> string) list"

record pylib =
  pyseto_encode :: "payload \<Rightarrow> string \<Rightarrow> string \<Rightarrow> string"
    \<comment> \<open>pyseto.encode(SECRET_KEY, payload=, footer=) as text; the last argument is the
       randomness the library draws\<close>
  pyseto_decode :: "string \<Rightarrow> string \<Rightarrow> payload option"
    \<comment> \<open>what the body of pyseto.decode would give for a token and a footer, as the dict
       the caller reads, None when it raises: the body is entered only when the arguments
       of the call bind to the parameters (see verify_paseto_token)\<close>
  isoformat :: "datetime \<Rightarrow> string"
  fromisoformat :: "string \<Rightarrow> datetime option"
    \<comment> \<open>datetime.fromisoformat on a str; None for its ValueError\<close>
  adapt_datetime :: "datetime \<Rightarrow> string"
    \<comment> \<open>how sqlite3 binds a datetime parameter: the text isoformat(" ")\<close>
  strftime_date :: "datetime \<Rightarrow> string"
    \<comment> \<open>strftime("%Y-%m-%d")\<close>

text \<open>
  The clock of one request: \<open>utcnow c i\<close> is what the i-th call of datetime.utcnow()
  in the handler returns (microseconds since datetime.min), \<open>current_timestamp c\<close> the
  text SQLite's CURRENT_TIMESTAMP default gives.
\<close>

record clock =
  utcnow :: "nat \<Rightarrow> int"
  current_timestamp :: string

subsection \<open>The table licenses\<close>

text \<open>
  One row of the table created by init_db, without the AUTOINCREMENT id: the list of
  rows is kept in rowid order. The TIMESTAMP columns hold the text that was bound.
\<close>

record license_row =
  key :: string
  username :: string
  plan :: string
  created_at :: string
  expires_at :: string
  active :: bool
  last_check :: "string option"

record database =
  available :: bool
    \<comment> \<open>whether sqlite3.connect(DATABASE) succeeds\<close>
  licenses :: "license_row list"

definition connect :: "database \<Rightarrow> error + license_row list" where
  "connect db = (if available db then Inr (licenses db) else Inl OperationalError)"

definition has_key :: "license_row list \<Rightarrow> string \<Rightarrow> bool" where
  "has_key rows k = (find (\<lambda>r. key r = k) rows \<noteq> None)"

definition sql_insert ::
  "license_row list \<Rightarrow> string \<Rightarrow> string option \<Rightarrow> string option \<Rightarrow> string \<Rightarrow> string \<Rightarrow>
   string option \<Rightarrow> error + license_row list" where
  \<comment> \<open>INSERT INTO licenses (key, username, plan, expires_at [, last_check]): created_at
     and active take their defaults, CURRENT_TIMESTAMP and 1\<close>
  "sql_insert rows k uname pl exp_text created lc =
     (case uname of
        None \<Rightarrow> Inl (IntegrityError NotNull_username)
      | Some u \<Rightarrow>
          (case pl of
             None \<Rightarrow> Inl (IntegrityError NotNull_plan)
           | Some p \<Rightarrow>
               if has_key rows k then Inl (IntegrityError Unique_key)
               else Inr (rows @ [\<lparr>key = k, username = u, plan = p, created_at = created,
                                   expires_at = exp_text, active = True, last_check = lc\<rparr>])))"

definition select_active_expires :: "license_row list \<Rightarrow> string \<Rightarrow> (bool \<times> string) option" where
  \<comment> \<open>SELECT active, expires_at FROM licenses WHERE key = ?, then fetchone()\<close>
  "select_active_expires rows k =
     map_option (\<lambda>r. (active r, expires_at r)) (find (\<lambda>r. key r = k) rows)"

definition select_expires :: "license_row list \<Rightarrow> string \<Rightarrow> string option" where
  \<comment> \<open>SELECT expires_at FROM licenses WHERE key = ?, then fetchone()\<close>
  "select_expires rows k = map_option expires_at (find (\<lambda>r. key r = k) rows)"

definition update_last_check :: "license_row list \<Rightarrow> string \<Rightarrow> string \<Rightarrow> license_row list" where
  \<comment> \<open>UPDATE licenses SET last_check = ? WHERE key = ?\<close>
  "update_last_check rows k v = map (\<lambda>r. if key r = k then r\<lparr>last_check := Some v\<rparr> else r) rows"

definition update_active :: "license_row list \<Rightarrow> string \<Rightarrow> bool \<Rightarrow> license_row list" where
  \<comment> \<open>UPDATE licenses SET active = ? WHERE key = ?\<close>
  "update_active rows k v = map (\<lambda>r. if key r = k then r\<lparr>active := v\<rparr> else r) rows"

definition update_expires_at :: "license_row list \<Rightarrow> string \<Rightarrow> string \<Rightarrow> license_row list" where
  \<comment> \<open>UPDATE licenses SET expires_at = ? WHERE key = ?\<close>
  "update_expires_at rows k v = map (\<lambda>r. if key r = k then r\<lparr>expires_at := v\<rparr> else r) rows"

subsection \<open>Token generation and verification\<close>

definition footer :: string where
  "footer = ''license-v1''"

definition generate_paseto_token ::
  "pylib \<Rightarrow> string \<Rightarrow> string \<Rightarrow> datetime \<Rightarrow> int \<Rightarrow> string \<Rightarrow> string" where
  \<comment> \<open>the fourth argument is the reading of utcnow() for the claim iat\<close>
  "generate_paseto_token L uname pl exp_at iat_now rnd =
     pyseto_encode L
       [(''sub'', uname), (''plan'', pl), (''exp'', isoformat L exp_at),
        (''iat'', isoformat L (DateTime iat_now None))]
       footer rnd"

definition pyseto_decode_parameters :: "string list" where
  \<comment> \<open>the signature the library publishes:
     decode(keys, token, implicit_assertion=b"", deserializer=None, aud="");
     the footer is read from the token and is no parameter, and without a deserializer
     the payload of the result is bytes, not a dict\<close>
  "pyseto_decode_parameters =
     [''keys'', ''token'', ''implicit_assertion'', ''deserializer'', ''aud'']"

definition bind_keywords :: "string list \<Rightarrow> string list \<Rightarrow> error + unit" where
  \<comment> \<open>a call with a keyword argument that the function does not declare raises
     TypeError before the body of the function runs\<close>
  "bind_keywords parameters keywords =
     (if list_all (\<lambda>kw. kw \<in> set parameters) keywords then Inr () else Inl TypeError)"

definition verify_paseto_token :: "pylib \<Rightarrow> string \<Rightarrow> error + payload" where
  \<comment> \<open>pyseto.decode(SECRET_KEY, token, footer=b"license-v1") inside try; every exception,
     the TypeError of the call as well, is raised again as ValueError\<close>
  "verify_paseto_token L token =
     (case bind_keywords pyseto_decode_parameters [''footer''] of
        Inl e \<Rightarrow> Inl ValueError
      | Inr _ \<Rightarrow>
          (case pyseto_decode L token footer of None \<Rightarrow> Inl ValueError | Some p \<Rightarrow> Inr p))"

subsection \<open>POST /api/validate\<close>

text \<open>
  The three messages of the handler, which the source writes in Russian:
  \<open>MsgDeactivated\<close> is "the license was deactivated by the administrator",
  \<open>MsgExpired\<close> is "the license's term has run out", \<open>MsgInvalidKey\<close> is "wrong
  license key".
\<close>

datatype message = MsgDeactivated | MsgExpired | MsgInvalidKey

datatype response =
    Valid "string option" "string option" int string
      \<comment> \<open>valid: True with username, plan, days_remaining, expires_at\<close>
  | Invalid message
      \<comment> \<open>valid: False with error\<close>

definition py_fromisoformat :: "pylib \<Rightarrow> string option \<Rightarrow> error + datetime" where
  \<comment> \<open>datetime.fromisoformat on the result of payload.get, which may be None\<close>
  "py_fromisoformat L s =
     (case s of
        None \<Rightarrow> Inl TypeError
      | Some text \<Rightarrow> (case fromisoformat L text of None \<Rightarrow> Inl ValueError | Some dt \<Rightarrow> Inr dt))"

definition check_license ::
  "pylib \<Rightarrow> clock \<Rightarrow> string option \<Rightarrow> string option \<Rightarrow> bool \<Rightarrow> datetime \<Rightarrow> error + response" where
  \<comment> \<open>the handler after conn.close(): the activity check, the expiry check, the answer\<close>
  "check_license L c uname pl act exp_at =
     (if \<not> act then Inr (Invalid MsgDeactivated)
      else
        (case utcnow_gt (utcnow c 1) exp_at of
           Inl e \<Rightarrow> Inl e
         | Inr expired \<Rightarrow>
             if expired then Inr (Invalid MsgExpired)
             else
               (case days_until exp_at (utcnow c 2) of
                  Inl e \<Rightarrow> Inl e
                | Inr days_remaining \<Rightarrow>
                    Inr (Valid uname pl days_remaining (strftime_date L exp_at)))))"

definition validate_try :: "pylib \<Rightarrow> database \<Rightarrow> clock \<Rightarrow> string \<Rightarrow> (error + response) \<times> database" where
  \<comment> \<open>the body of the try block, with the table as committed when the body is left\<close>
  "validate_try L db c request_key =
     (case verify_paseto_token L request_key of
        Inl e \<Rightarrow> (Inl e, db)
      | Inr p \<Rightarrow>
          let uname = map_of p ''sub'';
              pl = map_of p ''plan'';
              expires_str = map_of p ''exp''
          in
            (case connect db of
               Inl e \<Rightarrow> (Inl e, db)
             | Inr rows \<Rightarrow>
                 (case select_active_expires rows request_key of
                    None \<Rightarrow>
                      (case py_fromisoformat L expires_str of
                         Inl e \<Rightarrow> (Inl e, db)
                       | Inr exp_at \<Rightarrow>
                           (case sql_insert rows request_key uname pl (adapt_datetime L exp_at)
                                   (current_timestamp c)
                                   (Some (adapt_datetime L (DateTime (utcnow c 0) None))) of
                              Inl e \<Rightarrow> (Inl e, db)
                            | Inr rows' \<Rightarrow>
                                (check_license L c uname pl True exp_at,
                                 db\<lparr>licenses := rows'\<rparr>)))
                  | Some (act, expires_db) \<Rightarrow>
                      (case fromisoformat L expires_db of
                         None \<Rightarrow> (Inl ValueError, db)
                       | Some exp_at \<Rightarrow>
                           (check_license L c uname pl act exp_at,
                            db\<lparr>licenses :=
                                 update_last_check rows request_key
                                   (adapt_datetime L (DateTime (utcnow c 0) None))\<rparr>)))))"

definition validate_license :: "pylib \<Rightarrow> database \<Rightarrow> clock \<Rightarrow> string \<Rightarrow> response \<times> database" where
  \<comment> \<open>except Exception: the answer with the wrong-key message\<close>
  "validate_license L db c request_key =
     (case validate_try L db c request_key of
        (Inl e, db') \<Rightarrow> (Invalid MsgInvalidKey, db')
      | (Inr r, db') \<Rightarrow> (r, db'))"

subsection \<open>POST /admin/create\<close>

record license =
  lic_username :: string
  lic_plan :: string
  lic_days :: int

datatype created = Created string string string string
  \<comment> \<open>success: True with key, username, plan, expires_at\<close>

definition create_try ::
  "pylib \<Rightarrow> database \<Rightarrow> clock \<Rightarrow> string \<Rightarrow> license \<Rightarrow> (error + created) \<times> database" where
  "create_try L db c rnd lic =
     (case timedelta_days (lic_days lic) of
        Inl e \<Rightarrow> (Inl e, db)
      | Inr delta \<Rightarrow>
          (case datetime_add (DateTime (utcnow c 0) None) delta of
             Inl e \<Rightarrow> (Inl e, db)
           | Inr exp_at \<Rightarrow>
               let k = generate_paseto_token L (lic_username lic) (lic_plan lic) exp_at
                         (utcnow c 1) rnd
               in
                 (case connect db of
                    Inl e \<Rightarrow> (Inl e, db)
                  | Inr rows \<Rightarrow>
                      (case sql_insert rows k (Some (lic_username lic)) (Some (lic_plan lic))
                              (adapt_datetime L exp_at) (current_timestamp c) None of
                         Inl e \<Rightarrow> (Inl e, db)
                       | Inr rows' \<Rightarrow>
                           (Inr (Created k (lic_username lic) (lic_plan lic)
                                   (strftime_date L exp_at)),
                            db\<lparr>licenses := rows'\<rparr>)))))"

definition admin_create_license ::
  "pylib \<Rightarrow> database \<Rightarrow> clock \<Rightarrow> string \<Rightarrow> license \<Rightarrow> (error + created) \<times> database" where
  \<comment> \<open>except Exception as e: raise HTTPException(status_code=500, detail=str(e))\<close>
  "admin_create_license L db c rnd lic =
     (case create_try L db c rnd lic of
        (Inl e, db') \<Rightarrow> (Inl (HTTPException 500 e), db')
      | (Inr r, db') \<Rightarrow> (Inr r, db'))"

subsection \<open>POST /admin/update\<close>

record license_update =
  upd_key :: string
  upd_days :: "int option"
  upd_active :: "bool option"

datatype updated = Success
  \<comment> \<open>success: True\<close>

definition admin_update_license ::
  "pylib \<Rightarrow> database \<Rightarrow> license_update \<Rightarrow> (error + updated) \<times> database" where
  \<comment> \<open>an exception leaves the handler before conn.commit(): the table stays as it was\<close>
  "admin_update_license L db u =
     (case connect db of
        Inl e \<Rightarrow> (Inl e, db)
      | Inr rows \<Rightarrow>
          let rows1 = (case upd_active u of
                         None \<Rightarrow> rows
                       | Some a \<Rightarrow> update_active rows (upd_key u) a)
          in
            (case upd_days u of
               None \<Rightarrow> (Inr Success, db\<lparr>licenses := rows1\<rparr>)
             | Some d \<Rightarrow>
                 (case select_expires rows1 (upd_key u) of
                    None \<Rightarrow> (Inr Success, db\<lparr>licenses := rows1\<rparr>)
                  | Some text \<Rightarrow>
                      (case fromisoformat L text of
                         None \<Rightarrow> (Inl ValueError, db)
                       | Some current_expires \<Rightarrow>
                           (case timedelta_days d of
                              Inl e \<Rightarrow> (Inl e, db)
                            | Inr delta \<Rightarrow>
                                (case datetime_add current_expires delta of
                                   Inl e \<Rightarrow> (Inl e, db)
                                 | Inr new_expires \<Rightarrow>
                                     (Inr Success,
                                      db\<lparr>licenses :=
                                           update_expires_at rows1 (upd_key u)
                                             (adapt_datetime L new_expires)\<rparr>)))))))"

subsection \<open>A library, clocks and tables for the examples\<close>

text \<open>
  The examples below run the handlers on one token. The instants are the counts of
  microseconds of 2029-12-01T12:00:00 (64026417600000000), 2030-01-01T00:00:00
  (64029052800000000), 2030-01-01T12:00:00 (64029096000000000), 2030-01-31T00:00:00
  (64031644800000000) and 2030-03-02T00:00:00 (64034236800000000); the example library
  maps each of them to its text and back, and its decoding accepts the one token.
\<close>

definition demo_token :: string where
  "demo_token = ''v4.local.demo''"

definition demo_payload :: payload where
  "demo_payload =
     [(''sub'', ''alice''), (''plan'', ''Pro''), (''exp'', ''2030-01-01T00:00:00''),
      (''iat'', ''2029-12-01T12:00:00'')]"

definition demo_fromisoformat :: "string \<Rightarrow> datetime option" where
  "demo_fromisoformat s =
     (if s = ''2030-01-01T00:00:00'' then Some (DateTime 64029052800000000 None)
      else if s = ''2030-01-01 00:00:00'' then Some (DateTime 64029052800000000 None)
      else if s = ''2030-01-31 00:00:00'' then Some (DateTime 64031644800000000 None)
      else if s = ''2030-03-02 00:00:00'' then Some (DateTime 64034236800000000 None)
      else None)"

definition demo_adapt :: "datetime \<Rightarrow> string" where
  "demo_adapt dt =
     (if dt = DateTime 64029052800000000 None then ''2030-01-01 00:00:00''
      else if dt = DateTime 64031644800000000 None then ''2030-01-31 00:00:00''
      else if dt = DateTime 64034236800000000 None then ''2030-03-02 00:00:00''
      else ''2029-12-01 12:00:00'')"

definition demo_isoformat :: "datetime \<Rightarrow> string" where
  "demo_isoformat dt =
     (if dt = DateTime 64029052800000000 None then ''2030-01-01T00:00:00''
      else if dt = DateTime 64029096000000000 None then ''2030-01-01T12:00:00''
      else ''2029-12-01T12:00:00'')"

definition demo_date :: "datetime \<Rightarrow> string" where
  "demo_date dt =
     (if dt = DateTime 64029052800000000 None then ''2030-01-01''
      else if dt = DateTime 64029096000000000 None then ''2030-01-01''
      else ''2029-12-01'')"

definition demo_lib :: pylib where
  "demo_lib =
     \<lparr>pyseto_encode = (\<lambda>p f rnd. ''v4.local.'' @ rnd),
      pyseto_decode = (\<lambda>token f. if token = demo_token \<and> f = ''license-v1''
                                    then Some demo_payload else None),
      isoformat = demo_isoformat,
      fromisoformat = demo_fromisoformat,
      adapt_datetime = demo_adapt,
      strftime_date = demo_date\<rparr>"

definition early_clock :: clock where
  "early_clock = \<lparr>utcnow = (\<lambda>i. 64026417600000000), current_timestamp = ''2029-12-01 12:00:00''\<rparr>"

definition late_clock :: clock where
  "late_clock = \<lparr>utcnow = (\<lambda>i. 64029052800000001), current_timestamp = ''2030-01-01 00:00:00''\<rparr>"

definition demo_row :: license_row where
  "demo_row =
     \<lparr>key = demo_token, username = ''alice'', plan = ''Pro'',
      created_at = ''2029-12-01 12:00:00'', expires_at = ''2030-01-01 00:00:00'',
      active = True, last_check = None\<rparr>"

definition other_row :: license_row where
  "other_row =
     \<lparr>key = ''v4.local.other'', username = ''bob'', plan = ''Basic'',
      created_at = ''2029-12-01 12:00:00'', expires_at = ''2030-01-31 00:00:00'',
      active = True, last_check = None\<rparr>"

definition fresh_db :: database where
  "fresh_db = \<lparr>available = True, licenses = [other_row]\<rparr>"

definition demo_db :: database where
  "demo_db = \<lparr>available = True, licenses = [other_row, demo_row]\<rparr>"

definition revoked_db :: database where
  "revoked_db = \<lparr>available = True, licenses = [other_row, demo_row\<lparr>active := False\<rparr>]\<rparr>"

definition corrupt_db :: database where
  "corrupt_db = \<lparr>available = True, licenses = [demo_row\<lparr>expires_at := ''soon''\<rparr>]\<rparr>"

definition down_db :: database where
  "down_db = \<lparr>available = False, licenses = [other_row, demo_row]\<rparr>"


section \<open>Properties\<close>

subsection \<open>The call of pyseto.decode\<close>

lemma bind_footer_keyword: "bind_keywords pyseto_decode_parameters [''footer''] = Inl TypeError"
  by (simp add: bind_keywords_def pyseto_decode_parameters_def)

lemma verify_paseto_token_raises: "verify_paseto_token L token = Inl ValueError"
  by (simp add: verify_paseto_token_def bind_footer_keyword)

lemma validate_license_wrong_key: "validate_license L db c k = (Invalid MsgInvalidKey, db)"
  by (simp add: validate_license_def validate_try_def verify_paseto_token_raises)

text \<open>
  C3. Decoding the token that generate_paseto_token produces does not succeed and
  recovers no claim: verify_paseto_token passes the keyword footer to pyseto.decode,
  which declares no such parameter, so the call raises and verify_paseto_token raises
  ValueError for the generated token, whatever subject, plan and expiry it was generated
  from.
\<close>

theorem generated_token_not_decoded:
  "verify_paseto_token L (generate_paseto_token L uname pl exp_at iat_now rnd) = Inl ValueError"
  by (rule verify_paseto_token_raises)

subsection \<open>What one call of the validation handler does\<close>

lemma validate_license_fst:
  "fst (validate_license L db c k) =
     (case fst (validate_try L db c k) of Inl e \<Rightarrow> Invalid MsgInvalidKey | Inr r \<Rightarrow> r)"
  by (simp add: validate_license_def split: prod.splits sum.splits)

lemma validate_license_snd: "snd (validate_license L db c k) = snd (validate_try L db c k)"
  by (simp add: validate_license_def split: prod.splits sum.splits)

lemma validate_try_decode_failure:
  "pyseto_decode L token footer = None \<Longrightarrow> validate_try L db c token = (Inl ValueError, db)"
  by (simp add: validate_try_def verify_paseto_token_def split: sum.splits)

lemma update_last_check_length: "length (update_last_check rows k v) = length rows"
  by (simp add: update_last_check_def)

lemma update_last_check_nth:
  "i < length rows \<Longrightarrow>
   update_last_check rows k v ! i =
     (if key (rows ! i) = k then (rows ! i)\<lparr>last_check := Some v\<rparr> else rows ! i)"
  by (simp add: update_last_check_def)

lemma validate_try_snd_cases:
  "has_key (licenses db) k \<Longrightarrow>
   snd (validate_try L db c k) = db \<or>
   snd (validate_try L db c k) =
     db\<lparr>licenses := update_last_check (licenses db) k
                       (adapt_datetime L (DateTime (utcnow c 0) None))\<rparr>"
  by (auto simp: validate_try_def has_key_def select_active_expires_def connect_def Let_def
           split: sum.splits option.splits)

subsection \<open>Undecodable tokens and internal failures\<close>

text \<open>
  C7. When the decoding of the token fails, whatever the cause, verify_paseto_token
  raises the one ValueError, and validate_license raises nothing: it answers
  valid: False with the fixed wrong-key message, and the table is as it was.
\<close>

theorem validate_decode_failure:
  assumes "pyseto_decode L token footer = None"
  shows "verify_paseto_token L token = Inl ValueError \<and>
         validate_license L db c token = (Invalid MsgInvalidKey, db)"
  using assms
  by (simp add: validate_license_def validate_try_decode_failure verify_paseto_token_def
        split: sum.splits)

theorem validate_decode_failure_witness:
  "verify_paseto_token demo_lib ''garbage'' = Inl ValueError \<and>
   validate_license demo_lib demo_db early_clock ''garbage'' = (Invalid MsgInvalidKey, demo_db)"
proof -
  have undecodable: "pyseto_decode demo_lib ''garbage'' footer = None"
    by (simp add: demo_lib_def demo_token_def)
  show ?thesis
    by (rule validate_decode_failure [OF undecodable])
qed

text \<open>
  C10. Every exception inside the try block of validate_license gives the answer
  valid: False with the wrong-key message: in particular a database that cannot be
  opened, a stored expiry that does not parse, and a token that does not decode all
  give this same answer.
\<close>

theorem validate_failure_generic:
  "(fst (validate_try L db c k) = Inl e \<longrightarrow>
      fst (validate_license L db c k) = Invalid MsgInvalidKey) \<and>
   (\<not> available db \<longrightarrow> fst (validate_license L db c k) = Invalid MsgInvalidKey) \<and>
   (select_active_expires (licenses db) k = Some (act, text) \<and> fromisoformat L text = None \<longrightarrow>
      fst (validate_license L db c k) = Invalid MsgInvalidKey) \<and>
   (pyseto_decode L k footer = None \<longrightarrow>
      fst (validate_license L db c k) = Invalid MsgInvalidKey)"
  by (auto simp: validate_license_fst validate_try_def verify_paseto_token_def connect_def
        split: sum.splits option.splits)

theorem validate_failure_generic_witness:
  "fst (validate_license demo_lib down_db early_clock demo_token) = Invalid MsgInvalidKey \<and>
   fst (validate_license demo_lib corrupt_db early_clock demo_token) = Invalid MsgInvalidKey \<and>
   fst (validate_license demo_lib demo_db early_clock ''garbage'') = Invalid MsgInvalidKey"
proof -
  have down: "\<not> available down_db"
    by (simp add: down_db_def)
  have stored: "select_active_expires (licenses corrupt_db) demo_token = Some (True, ''soon'')"
    by (simp add: corrupt_db_def demo_row_def select_active_expires_def)
  have malformed: "fromisoformat demo_lib ''soon'' = None"
    by (simp add: demo_lib_def demo_fromisoformat_def)
  have undecodable: "pyseto_decode demo_lib ''garbage'' footer = None"
    by (simp add: demo_lib_def demo_token_def)
  have a: "fst (validate_license demo_lib down_db early_clock demo_token) = Invalid MsgInvalidKey"
    using validate_failure_generic [of demo_lib down_db early_clock demo_token] down by blast
  have b: "fst (validate_license demo_lib corrupt_db early_clock demo_token) = Invalid MsgInvalidKey"
    using validate_failure_generic [of demo_lib corrupt_db early_clock demo_token _ True "''soon''"]
      stored malformed by blast
  have c: "fst (validate_license demo_lib demo_db early_clock ''garbage'') = Invalid MsgInvalidKey"
    using validate_failure_generic [of demo_lib demo_db early_clock "''garbage''"] undecodable
    by blast
  show ?thesis using a b c by simp
qed

subsection \<open>Validating a registered token\<close>

text \<open>
  C9. When the key of the token already has a row, a call of validate_license keeps
  the number and order of the rows, keeps key, username, plan, created_at, expires_at
  and active of every row, and keeps every row of another key as it is: only last_check
  of the rows of this key can change.
\<close>

theorem validate_registered_frame:
  assumes "has_key (licenses db) k"
  shows "available (snd (validate_license L db c k)) = available db \<and>
         length (licenses (snd (validate_license L db c k))) = length (licenses db) \<and>
         (\<forall>i < length (licenses db).
            key (licenses (snd (validate_license L db c k)) ! i) = key (licenses db ! i) \<and>
            username (licenses (snd (validate_license L db c k)) ! i) = username (licenses db ! i) \<and>
            plan (licenses (snd (validate_license L db c k)) ! i) = plan (licenses db ! i) \<and>
            created_at (licenses (snd (validate_license L db c k)) ! i) = created_at (licenses db ! i) \<and>
            expires_at (licenses (snd (validate_license L db c k)) ! i) = expires_at (licenses db ! i) \<and>
            active (licenses (snd (validate_license L db c k)) ! i) = active (licenses db ! i) \<and>
            (key (licenses db ! i) \<noteq> k \<longrightarrow>
               licenses (snd (validate_license L db c k)) ! i = licenses db ! i))"
proof -
  let ?v = "adapt_datetime L (DateTime (utcnow c 0) None)"
  consider (same) "snd (validate_license L db c k) = db"
    | (touched) "snd (validate_license L db c k) =
                   db\<lparr>licenses := update_last_check (licenses db) k ?v\<rparr>"
    using validate_try_snd_cases [OF assms, of L c] by (auto simp: validate_license_snd)
  then show ?thesis
  proof cases
    case same
    then show ?thesis by simp
  next
    case touched
    then show ?thesis by (simp add: update_last_check_nth update_last_check_length)
  qed
qed

theorem validate_registered_frame_witness:
  "has_key (licenses demo_db) demo_token \<and>
   length (licenses (snd (validate_license demo_lib demo_db early_clock demo_token))) = 2 \<and>
   licenses (snd (validate_license demo_lib demo_db early_clock demo_token)) ! 0 = other_row \<and>
   expires_at (licenses (snd (validate_license demo_lib demo_db early_clock demo_token)) ! 1) =
     ''2030-01-01 00:00:00'' \<and>
   active (licenses (snd (validate_license demo_lib demo_db early_clock demo_token)) ! 1)"
proof -
  have registered: "has_key (licenses demo_db) demo_token"
    by (simp add: has_key_def demo_db_def demo_row_def other_row_def demo_token_def)
  note frame = validate_registered_frame [OF registered, of demo_lib early_clock]
  have len: "length (licenses demo_db) = 2"
    by (simp add: demo_db_def)
  have other: "key (licenses demo_db ! 0) \<noteq> demo_token" "licenses demo_db ! 0 = other_row"
    by (simp_all add: demo_db_def other_row_def demo_token_def)
  have mine: "expires_at (licenses demo_db ! 1) = ''2030-01-01 00:00:00''"
    "active (licenses demo_db ! 1)"
    by (simp_all add: demo_db_def demo_row_def)
  from frame len
  have at0: "key (licenses demo_db ! 0) \<noteq> demo_token \<longrightarrow>
               licenses (snd (validate_license demo_lib demo_db early_clock demo_token)) ! 0 =
               licenses demo_db ! 0"
    and at1: "expires_at (licenses (snd (validate_license demo_lib demo_db early_clock demo_token)) ! 1) =
                expires_at (licenses demo_db ! 1)"
             "active (licenses (snd (validate_license demo_lib demo_db early_clock demo_token)) ! 1) =
                active (licenses demo_db ! 1)"
    by simp_all
  show ?thesis using registered frame len other mine at0 at1 by simp
qed

subsection \<open>The answers that the failing call of pyseto.decode replaces\<close>

text \<open>
  The three statements below run validate_license on a token that the body of the
  example library's decoding accepts. The handler never reaches that body: the call
  raises on its keyword footer, and the answer is the wrong-key one with the table
  unchanged, where the registration, the expiry check and the activity check were to
  decide.
\<close>

text \<open>
  C1. A token that has no row, presented for the first time a month before the
  expiry it carries: validate_license inserts no row and answers with the wrong-key
  message, not with the valid answer.
\<close>

theorem first_use_answers_wrong_key:
  "pyseto_decode demo_lib demo_token footer = Some demo_payload \<and>
   \<not> has_key (licenses fresh_db) demo_token \<and>
   validate_license demo_lib fresh_db early_clock demo_token = (Invalid MsgInvalidKey, fresh_db)"
proof -
  have accepted: "pyseto_decode demo_lib demo_token footer = Some demo_payload"
    by (simp add: demo_lib_def footer_def)
  have absent: "\<not> has_key (licenses fresh_db) demo_token"
    by (simp add: has_key_def fresh_db_def other_row_def demo_token_def)
  show ?thesis using accepted absent by (simp add: validate_license_wrong_key)
qed

text \<open>
  C2. A token whose row is active with the stored expiry 2030-01-01T00:00:00, presented
  one microsecond after that instant: validate_license answers with the wrong-key
  message, not with the expired one.
\<close>

theorem expired_answers_wrong_key:
  "select_active_expires (licenses demo_db) demo_token = Some (True, ''2030-01-01 00:00:00'') \<and>
   fromisoformat demo_lib ''2030-01-01 00:00:00'' = Some (DateTime 64029052800000000 None) \<and>
   utcnow late_clock 1 = 64029052800000001 \<and>
   validate_license demo_lib demo_db late_clock demo_token = (Invalid MsgInvalidKey, demo_db)"
proof -
  have stored: "select_active_expires (licenses demo_db) demo_token =
                  Some (True, ''2030-01-01 00:00:00'')"
    by (simp add: demo_db_def demo_row_def other_row_def demo_token_def select_active_expires_def)
  have parsed: "fromisoformat demo_lib ''2030-01-01 00:00:00'' =
                  Some (DateTime 64029052800000000 None)"
    by (simp add: demo_lib_def demo_fromisoformat_def)
  have now: "utcnow late_clock 1 = 64029052800000001"
    by (simp add: late_clock_def)
  show ?thesis using stored parsed now by (simp add: validate_license_wrong_key)
qed

text \<open>
  C5. A token whose row has active = false: validate_license answers with the wrong-key
  message, not with the deactivated one.
\<close>

theorem deactivated_answers_wrong_key:
  "select_active_expires (licenses revoked_db) demo_token = Some (False, ''2030-01-01 00:00:00'') \<and>
   validate_license demo_lib revoked_db early_clock demo_token = (Invalid MsgInvalidKey, revoked_db)"
proof -
  have stored: "select_active_expires (licenses revoked_db) demo_token =
                  Some (False, ''2030-01-01 00:00:00'')"
    by (simp add: revoked_db_def demo_row_def other_row_def demo_token_def
          select_active_expires_def)
  show ?thesis using stored by (simp add: validate_license_wrong_key)
qed

subsection \<open>The administrative handlers\<close>

lemma update_active_absent:
  "\<not> has_key rows k \<Longrightarrow> update_active rows k a = rows"
  unfolding has_key_def update_active_def
  by (induction rows) (auto split: if_splits)

lemma select_expires_absent:
  "\<not> has_key rows k \<Longrightarrow> select_expires rows k = None"
  by (simp add: has_key_def select_expires_def)






text \<open>
  C6. When the key has no row and the database opens, admin_update_license returns
  success and the table is exactly as it was, whichever of days and active the request
  carries.
\<close>

theorem admin_update_absent_key:
  assumes "available db" and "\<not> has_key (licenses db) (upd_key u)"
  shows "admin_update_license L db u = (Inr Success, db)"
proof -
  have rows1: "(case upd_active u of None \<Rightarrow> licenses db
                | Some a \<Rightarrow> update_active (licenses db) (upd_key u) a) = licenses db"
    using assms(2) by (simp add: update_active_absent split: option.splits)
  show ?thesis
    using assms
    by (cases "upd_days u")
       (simp_all add: admin_update_license_def connect_def rows1 select_expires_absent)
qed

theorem admin_update_absent_key_witness:
  "admin_update_license demo_lib demo_db
     \<lparr>upd_key = ''v4.local.unknown'', upd_days = Some 30, upd_active = Some False\<rparr> =
     (Inr Success, demo_db)"
proof -
  have up: "available demo_db"
    by (simp add: demo_db_def)
  have absent: "\<not> has_key (licenses demo_db)
                   (upd_key \<lparr>upd_key = ''v4.local.unknown'', upd_days = Some 30,
                             upd_active = Some False\<rparr>)"
    by (simp add: has_key_def demo_db_def demo_row_def other_row_def demo_token_def)
  show ?thesis
    by (rule admin_update_absent_key [OF up absent])
qed



text \<open>
  C8. An INSERT whose key already has a row fails with the IntegrityError of the
  UNIQUE constraint; when the token that admin_create_license generates already has a
  row, the handler raises HTTPException with status 500 carrying that error, and the
  table is as it was.
\<close>

theorem duplicate_key_rejected:
  assumes "has_key rows k"
    and "available db"
    and "timedelta_days (lic_days lic) = Inr delta"
    and "datetime_add (DateTime (utcnow c 0) None) delta = Inr exp_at"
    and "has_key (licenses db)
           (generate_paseto_token L (lic_username lic) (lic_plan lic) exp_at (utcnow c 1) rnd)"
  shows "sql_insert rows k (Some u) (Some pl) text created lc = Inl (IntegrityError Unique_key) \<and>
         admin_create_license L db c rnd lic =
           (Inl (HTTPException 500 (IntegrityError Unique_key)), db)"
  using assms
  by (simp add: sql_insert_def admin_create_license_def create_try_def connect_def)

theorem duplicate_key_rejected_witness:
  "sql_insert (licenses demo_db) demo_token (Some ''alice'') (Some ''Pro'')
     ''2030-01-01 00:00:00'' ''2029-12-01 12:00:00'' None = Inl (IntegrityError Unique_key) \<and>
   admin_create_license demo_lib demo_db early_clock ''demo''
     \<lparr>lic_username = ''alice'', lic_plan = ''Pro'', lic_days = 31\<rparr> =
     (Inl (HTTPException 500 (IntegrityError Unique_key)), demo_db)"
proof -
  let ?lic = "\<lparr>lic_username = ''alice'', lic_plan = ''Pro'', lic_days = 31\<rparr>"
  have present: "has_key (licenses demo_db) demo_token"
    by (simp add: has_key_def demo_db_def demo_row_def other_row_def demo_token_def)
  have up: "available demo_db"
    by (simp add: demo_db_def)
  have delta: "timedelta_days (lic_days ?lic) = Inr (31 * us_per_day)"
    by (simp add: timedelta_days_def)
  have expiry: "datetime_add (DateTime (utcnow early_clock 0) None) (31 * us_per_day) =
                  Inr (DateTime 64029096000000000 None)"
    by (simp add: early_clock_def us_per_day_def datetime_max_def)
  have minted: "generate_paseto_token demo_lib (lic_username ?lic) (lic_plan ?lic)
                  (DateTime 64029096000000000 None) (utcnow early_clock 1) ''demo'' = demo_token"
    by (simp add: generate_paseto_token_def demo_lib_def demo_token_def)
  have again: "has_key (licenses demo_db)
                 (generate_paseto_token demo_lib (lic_username ?lic) (lic_plan ?lic)
                    (DateTime 64029096000000000 None) (utcnow early_clock 1) ''demo'')"
    unfolding minted by (rule present)
  show ?thesis
    by (rule duplicate_key_rejected [OF present up delta expiry again])
qed

end
